theory Spec2Isabelle
  imports Complex_Main
begin

section \<open>Values shared by all functions of camFusion_Student.cpp\<close>

text \<open>
  The C++ functions return through reference parameters and can leave the defined part of
  the language. Every such exit is a value of \<open>error\<close>:
  \<^item> \<open>Undefined_Behaviour\<close>: an unchecked \<open>operator[]\<close> outside the vector, an iterator moved
    outside its vector and dereferenced, a \<open>double\<close> that does not fit converted to \<open>int\<close>,
    a \<open>cv::Mat::at\<close> outside the matrix data;
  \<^item> \<open>Out_Of_Range\<close>: the exception \<open>std::out_of_range\<close> thrown by \<open>std::vector::at\<close>;
  \<^item> \<open>Cv_Exception\<close>: the exception OpenCV throws when matrix shapes do not fit.
\<close>

datatype error = Undefined_Behaviour | Out_Of_Range | Cv_Exception

text \<open>
  A \<open>double\<close> result is a real number or one of the three special values of IEEE 754.
  Rounding, overflow of finite arithmetic and the sign of zero are not modelled: finite
  arithmetic is exact arithmetic on \<open>real\<close>, and a zero divisor counts as \<open>+0\<close>.
\<close>

datatype double = Fin real | PInf | NInf | NaN

fun dneg :: "double \<Rightarrow> double" where
  "dneg (Fin a) = Fin (- a)"
| "dneg PInf = NInf"
| "dneg NInf = PInf"
| "dneg NaN = NaN"

fun ddiv :: "double \<Rightarrow> double \<Rightarrow> double" where
  "ddiv (Fin a) (Fin b) =
     (if b \<noteq> 0 then Fin (a / b)
      else if a = 0 then NaN else if 0 < a then PInf else NInf)"
| "ddiv (Fin a) PInf = Fin 0"
| "ddiv (Fin a) NInf = Fin 0"
| "ddiv PInf (Fin b) = (if 0 \<le> b then PInf else NInf)"
| "ddiv NInf (Fin b) = (if 0 \<le> b then NInf else PInf)"
| "ddiv PInf PInf = NaN"
| "ddiv PInf NInf = NaN"
| "ddiv NInf PInf = NaN"
| "ddiv NInf NInf = NaN"
| "ddiv NaN b = NaN"
| "ddiv a NaN = NaN"

text \<open>\<open>v[i]\<close> on a \<open>std::vector\<close>: no bounds check, undefined outside the vector.\<close>

definition vector_subscript :: "'a list \<Rightarrow> int \<Rightarrow> error + 'a" where
  "vector_subscript v i =
     (if 0 \<le> i \<and> i < int (length v) then Inr (v ! nat i) else Inl Undefined_Behaviour)"

text \<open>\<open>v.at(i)\<close> on a \<open>std::vector\<close>: throws \<open>std::out_of_range\<close> outside the vector
  (a negative \<open>int\<close> index becomes a huge \<open>size_t\<close>).\<close>

definition vector_at :: "'a list \<Rightarrow> int \<Rightarrow> error + 'a" where
  "vector_at v i = (if 0 \<le> i \<and> i < int (length v) then Inr (v ! nat i) else Inl Out_Of_Range)"

section \<open>Data structures\<close>

text \<open>
  Modelled from the spec: \<open>dataStructures.h\<close> (\<open>LidarPoint\<close>, \<open>BoundingBox\<close>, \<open>DataFrame\<close>) is
  not among the sources, and \<open>cv::KeyPoint\<close>, \<open>cv::DMatch\<close>, \<open>cv::Rect\<close> are OpenCV's. The
  records hold the fields the functions read or write, under the names the code uses
  (prefixed where a field is called \<open>x\<close>, \<open>y\<close>, \<open>size\<close>, ...).
\<close>

record LidarPoint =
  lp_x :: real
  lp_y :: real
  lp_z :: real
  lp_r :: real

type_synonym Point2f = "real \<times> real"

type_synonym Point = "int \<times> int"

record Rect =
  rect_x :: int
  rect_y :: int
  rect_width :: int
  rect_height :: int

record KeyPoint =
  pt :: Point2f
  kp_size :: real
  kp_angle :: real
  response :: real
  octave :: int
  class_id :: int

record DMatch =
  queryIdx :: int
  trainIdx :: int
  imgIdx :: int
  distance :: real

record BoundingBox =
  boxID :: int
  roi :: Rect
  lidarPoints :: "LidarPoint list"
  keypoints :: "KeyPoint list"
  kptMatches :: "DMatch list"

record DataFrame =
  df_keypoints :: "KeyPoint list"
  boundingBoxes :: "BoundingBox list"

section \<open>OpenCV operations the functions call\<close>

text \<open>\<open>cv::Rect::contains\<close> on an integer point: half-open on the right and at the bottom.\<close>

definition contains :: "Rect \<Rightarrow> Point \<Rightarrow> bool" where
  "contains rc p =
     (rect_x rc \<le> fst p \<and> fst p < rect_x rc + rect_width rc \<and>
      rect_y rc \<le> snd p \<and> snd p < rect_y rc + rect_height rc)"

text \<open>
  \<open>roi.contains(kp.pt)\<close> with a \<open>cv::Point2f\<close>: the rectangle is a \<open>Rect_<int>\<close>, so the point
  is first converted to \<open>Point_<int>\<close>, each coordinate by \<open>cvRound\<close> (to nearest, a tie to
  the even neighbour).
\<close>

definition cvRound :: "real \<Rightarrow> int" where
  "cvRound v =
     (let f = \<lfloor>v\<rfloor>; d = v - of_int f
      in if d < 1 / 2 then f else if 1 / 2 < d then f + 1 else if even f then f else f + 1)"

definition contains_f :: "Rect \<Rightarrow> Point2f \<Rightarrow> bool" where
  "contains_f rc p = contains rc (cvRound (fst p), cvRound (snd p))"

text \<open>\<open>cv::norm(a - b)\<close> for two \<open>cv::Point2f\<close>.\<close>

definition cv_norm_diff :: "Point2f \<Rightarrow> Point2f \<Rightarrow> real" where
  "cv_norm_diff a b =
     sqrt ((fst a - fst b) * (fst a - fst b) + (snd a - snd b) * (snd a - snd b))"

text \<open>
  Assigning a \<open>double\<close> to an \<open>int\<close> truncates towards zero; the conversion is undefined
  when the truncated value is not an \<open>int\<close> (32 bits), in particular for an infinity or NaN.
\<close>

definition trunc_to_zero :: "real \<Rightarrow> int" where
  "trunc_to_zero v = (if 0 \<le> v then \<lfloor>v\<rfloor> else \<lceil>v\<rceil>)"

fun double_to_int :: "double \<Rightarrow> error + int" where
  "double_to_int (Fin v) =
     (if - (2 ^ 31) \<le> trunc_to_zero v \<and> trunc_to_zero v < 2 ^ 31 then Inr (trunc_to_zero v)
      else Inl Undefined_Behaviour)"
| "double_to_int PInf = Inl Undefined_Behaviour"
| "double_to_int NInf = Inl Undefined_Behaviour"
| "double_to_int NaN = Inl Undefined_Behaviour"

text \<open>
  A \<open>cv::Mat\<close> of doubles is the list of its rows, all of one length. The product throws
  when the inner dimensions differ. \<open>at<double>(i, j)\<close> is unchecked in a release build: it
  reads the element \<open>i * cols + j\<close> of the row-major data, undefined behind its end.
\<close>

type_synonym Mat = "real list list"

definition mat_rows :: "Mat \<Rightarrow> nat" where
  "mat_rows A = length A"

definition mat_cols :: "Mat \<Rightarrow> nat" where
  "mat_cols A = (case A of [] \<Rightarrow> 0 | row # _ \<Rightarrow> length row)"

definition mat_mul :: "Mat \<Rightarrow> Mat \<Rightarrow> error + Mat" where
  "mat_mul A B =
     (if mat_cols A = mat_rows B
      then Inr (map (\<lambda>i. map (\<lambda>j. sum_list (map (\<lambda>k. A ! i ! k * B ! k ! j) [0..<mat_cols A]))
                                 [0..<mat_cols B])
                    [0..<mat_rows A])
      else Inl Cv_Exception)"

definition mat_at :: "Mat \<Rightarrow> nat \<Rightarrow> nat \<Rightarrow> error + real" where
  "mat_at A i j =
     (let f = i * mat_cols A + j
      in if f < length (concat A) then Inr (concat A ! f) else Inl Undefined_Behaviour)"

text \<open>Sequencing: the first error ends the computation.\<close>

definition ebind :: "error + 'a \<Rightarrow> ('a \<Rightarrow> error + 'b) \<Rightarrow> error + 'b" where
  "ebind m f = (case m of Inl e \<Rightarrow> Inl e | Inr v \<Rightarrow> f v)"

text \<open>A \<open>for\<close> loop over a sequence whose body can fail.\<close>

fun for_each :: "'a list \<Rightarrow> ('a \<Rightarrow> 's \<Rightarrow> error + 's) \<Rightarrow> 's \<Rightarrow> error + 's" where
  "for_each [] body s = Inr s"
| "for_each (a # as) body s = ebind (body a s) (for_each as body)"

section \<open>computeTTCLidar\<close>

record lidar_vectors =
  Distance_array :: "real list"
  X_val_curr :: "real list"
  X_val_prev :: "real list"

text \<open>Body of the inner loop (lines 231-236): both \<open>push_back\<close>s are inside it.\<close>

definition lidar_inner_body :: "LidarPoint \<Rightarrow> LidarPoint \<Rightarrow> lidar_vectors \<Rightarrow> lidar_vectors" where
  "lidar_inner_body it1 it2 s =
     s\<lparr>X_val_prev := X_val_prev s @ [lp_x it2],
       Distance_array := Distance_array s @ [lp_x it2 - lp_x it1]\<rparr>"

text \<open>Body of the outer loop (lines 225-237).\<close>

definition lidar_outer_body :: "LidarPoint list \<Rightarrow> LidarPoint \<Rightarrow> lidar_vectors \<Rightarrow> lidar_vectors" where
  "lidar_outer_body lidarPointsPrev it1 s =
     fold (lidar_inner_body it1) lidarPointsPrev (s\<lparr>X_val_curr := X_val_curr s @ [lp_x it1]\<rparr>)"

definition lidar_collect :: "LidarPoint list \<Rightarrow> LidarPoint list \<Rightarrow> lidar_vectors" where
  "lidar_collect lidarPointsPrev lidarPointsCurr =
     fold (lidar_outer_body lidarPointsPrev) lidarPointsCurr
       \<lparr>Distance_array = [], X_val_curr = [], X_val_prev = []\<rparr>"

text \<open>
  Lines 239-251. The two reads \<open>X_val_prev[5]\<close> and \<open>X_val_curr[5]\<close> are unchecked; the
  function has a result only when both are inside their vectors.
\<close>

definition computeTTCLidar :: "LidarPoint list \<Rightarrow> LidarPoint list \<Rightarrow> real \<Rightarrow> error + double" where
  "computeTTCLidar lidarPointsPrev lidarPointsCurr frameRate =
     (let s = lidar_collect lidarPointsPrev lidarPointsCurr;
          Xc = sort (X_val_curr s);
          Xp = sort (X_val_prev s)
      in ebind (vector_subscript Xp 5) (\<lambda>p5.
         ebind (vector_subscript Xc 5) (\<lambda>c5.
         (let median_velocity = p5 - c5
          in Inr (ddiv (Fin c5) (Fin (median_velocity * frameRate)))))))"

section \<open>clusterLidarWithROI\<close>

text \<open>Lines 24-33: the projection of one Lidar point, with the division unguarded.\<close>

definition project :: "Mat \<Rightarrow> Mat \<Rightarrow> Mat \<Rightarrow> LidarPoint \<Rightarrow> error + Point" where
  "project P_rect_xx R_rect_xx RT it1 =
     (let X = [[lp_x it1], [lp_y it1], [lp_z it1], [1]]
      in ebind (mat_mul P_rect_xx R_rect_xx) (\<lambda>PR.
         ebind (mat_mul PR RT) (\<lambda>PRT.
         ebind (mat_mul PRT X) (\<lambda>Y.
         ebind (mat_at Y 0 0) (\<lambda>y00.
         ebind (mat_at Y 0 2) (\<lambda>y02.
         ebind (double_to_int (ddiv (Fin y00) (Fin y02))) (\<lambda>pt_x.
         ebind (mat_at Y 1 0) (\<lambda>y10.
         ebind (double_to_int (ddiv (Fin y10) (Fin y02))) (\<lambda>pt_y.
         Inr (pt_x, pt_y))))))))))"

text \<open>
  Lines 39-43: the shrunk copy of a rectangle; the four fields are \<open>int\<close>. In the source
  \<open>shrinkFactor\<close> is a \<open>float\<close> and the products are rounded to \<open>float\<close> before the
  truncation; here they are exact, so a field can differ by one pixel from the source's
  where the exact product lies just below an integer.
\<close>

definition smallerBox :: "real \<Rightarrow> Rect \<Rightarrow> error + Rect" where
  "smallerBox shrinkFactor rc =
     ebind (double_to_int (Fin (of_int (rect_x rc) + shrinkFactor * of_int (rect_width rc) / 2))) (\<lambda>sx.
     ebind (double_to_int (Fin (of_int (rect_y rc) + shrinkFactor * of_int (rect_height rc) / 2))) (\<lambda>sy.
     ebind (double_to_int (Fin (of_int (rect_width rc) * (1 - shrinkFactor)))) (\<lambda>sw.
     ebind (double_to_int (Fin (of_int (rect_height rc) * (1 - shrinkFactor)))) (\<lambda>sh.
     Inr \<lparr>rect_x = sx, rect_y = sy, rect_width = sw, rect_height = sh\<rparr>))))"

text \<open>
  Lines 35-51: the boxes whose shrunk rectangle holds the pixel, as positions in
  \<open>boundingBoxes\<close> (the code keeps iterators), in the order of the vector.
\<close>

fun enclosingBoxes :: "real \<Rightarrow> Point \<Rightarrow> BoundingBox list \<Rightarrow> nat \<Rightarrow> error + nat list" where
  "enclosingBoxes shrinkFactor p [] i = Inr []"
| "enclosingBoxes shrinkFactor p (it2 # rest) i =
     ebind (smallerBox shrinkFactor (roi it2)) (\<lambda>sb.
     ebind (enclosingBoxes shrinkFactor p rest (Suc i)) (\<lambda>es.
     Inr (if contains sb p then i # es else es)))"

text \<open>Lines 54-58.\<close>

definition add_lidar_point :: "LidarPoint \<Rightarrow> nat list \<Rightarrow> BoundingBox list \<Rightarrow> BoundingBox list" where
  "add_lidar_point it1 es boundingBoxes_v =
     (if length es = 1
      then boundingBoxes_v[hd es :=
             (boundingBoxes_v ! hd es)\<lparr>lidarPoints := lidarPoints (boundingBoxes_v ! hd es) @ [it1]\<rparr>]
      else boundingBoxes_v)"

text \<open>Body of the loop over the Lidar points (lines 22-60).\<close>

definition lidar_point_body ::
  "real \<Rightarrow> Mat \<Rightarrow> Mat \<Rightarrow> Mat \<Rightarrow> LidarPoint \<Rightarrow> BoundingBox list \<Rightarrow> error + BoundingBox list" where
  "lidar_point_body shrinkFactor P_rect_xx R_rect_xx RT it1 boundingBoxes_v =
     ebind (project P_rect_xx R_rect_xx RT it1) (\<lambda>p.
     ebind (enclosingBoxes shrinkFactor p boundingBoxes_v 0) (\<lambda>es.
     Inr (add_lidar_point it1 es boundingBoxes_v)))"

definition clusterLidarWithROI ::
  "BoundingBox list \<Rightarrow> LidarPoint list \<Rightarrow> real \<Rightarrow> Mat \<Rightarrow> Mat \<Rightarrow> Mat \<Rightarrow> error + BoundingBox list" where
  "clusterLidarWithROI boundingBoxes_v lidarPoints_v shrinkFactor P_rect_xx R_rect_xx RT =
     for_each lidarPoints_v (lidar_point_body shrinkFactor P_rect_xx R_rect_xx RT) boundingBoxes_v"

section \<open>clusterKptMatchesWithROI\<close>

text \<open>Body of the loop (lines 138-146); both \<open>at\<close> calls can throw.\<close>

definition kpt_match_body :: "KeyPoint list \<Rightarrow> KeyPoint list \<Rightarrow> DMatch \<Rightarrow> BoundingBox \<Rightarrow> error + BoundingBox" where
  "kpt_match_body kptsPrev kptsCurr it1 boundingBox =
     ebind (vector_at kptsCurr (trainIdx it1)) (\<lambda>kpOuterCurr.
     ebind (vector_at kptsPrev (queryIdx it1)) (\<lambda>kpOuterPrev.
     Inr (if contains_f (roi boundingBox) (pt kpOuterCurr)
          then boundingBox\<lparr>kptMatches := kptMatches boundingBox @ [it1],
                           keypoints := keypoints boundingBox @ [kpOuterCurr]\<rparr>
          else boundingBox)))"

text \<open>
  The loop starts at \<open>kptMatches.begin() + 1\<close> (line 136): on an empty vector that iterator
  is behind the end, never equal to \<open>end()\<close>, and the body dereferences it.
\<close>

definition clusterKptMatchesWithROI ::
  "BoundingBox \<Rightarrow> KeyPoint list \<Rightarrow> KeyPoint list \<Rightarrow> DMatch list \<Rightarrow> error + BoundingBox" where
  "clusterKptMatchesWithROI boundingBox kptsPrev kptsCurr kptMatches_v =
     (case kptMatches_v of
        [] \<Rightarrow> Inl Undefined_Behaviour
      | first # rest \<Rightarrow> for_each rest (kpt_match_body kptsPrev kptsCurr) boundingBox)"

section \<open>computeTTCCamera\<close>

definition minDist :: real where
  "minDist = 100"

definition epsilon :: real where
  "epsilon = 1 / 2 ^ 52"

text \<open>Body of the inner loop (lines 170-185).\<close>

definition ratio_inner_body ::
  "KeyPoint list \<Rightarrow> KeyPoint list \<Rightarrow> KeyPoint \<Rightarrow> KeyPoint \<Rightarrow> DMatch \<Rightarrow> real list \<Rightarrow> error + real list" where
  "ratio_inner_body kptsPrev kptsCurr kpOuterCurr kpOuterPrev it2 distRatios =
     ebind (vector_at kptsCurr (trainIdx it2)) (\<lambda>kpInnerCurr.
     ebind (vector_at kptsPrev (queryIdx it2)) (\<lambda>kpInnerPrev.
     (let distCurr = cv_norm_diff (pt kpOuterCurr) (pt kpInnerCurr);
          distPrev = cv_norm_diff (pt kpOuterPrev) (pt kpInnerPrev)
      in Inr (if epsilon < distPrev \<and> minDist \<le> distCurr
              then distRatios @ [distCurr / distPrev] else distRatios))))"

text \<open>Body of the outer loop (lines 163-186); the inner loop starts at \<open>begin() + 1\<close>.\<close>

definition ratio_outer_body ::
  "KeyPoint list \<Rightarrow> KeyPoint list \<Rightarrow> DMatch list \<Rightarrow> DMatch \<Rightarrow> real list \<Rightarrow> error + real list" where
  "ratio_outer_body kptsPrev kptsCurr kptMatches_v it1 distRatios =
     ebind (vector_at kptsCurr (trainIdx it1)) (\<lambda>kpOuterCurr.
     ebind (vector_at kptsPrev (queryIdx it1)) (\<lambda>kpOuterPrev.
     for_each (tl kptMatches_v)
       (ratio_inner_body kptsPrev kptsCurr kpOuterCurr kpOuterPrev) distRatios))"

text \<open>
  Lines 159-187. The outer loop ends at \<open>kptMatches.end() - 1\<close>: on an empty vector that
  iterator is before \<open>begin()\<close>, the loop condition never becomes false and the body
  dereferences \<open>end()\<close>.
\<close>

definition distRatios_of :: "KeyPoint list \<Rightarrow> KeyPoint list \<Rightarrow> DMatch list \<Rightarrow> error + real list" where
  "distRatios_of kptsPrev kptsCurr kptMatches_v =
     (if kptMatches_v = [] then Inl Undefined_Behaviour
      else for_each (butlast kptMatches_v) (ratio_outer_body kptsPrev kptsCurr kptMatches_v) [])"

text \<open>Lines 199-210, on the sorted vector.\<close>

definition medianDistRatio :: "real list \<Rightarrow> real" where
  "medianDistRatio sorted_ratios =
     (if length sorted_ratios mod 2 = 1
      then sorted_ratios ! ((length sorted_ratios - 1) div 2)
      else (sorted_ratios ! (length sorted_ratios div 2 - 1)
            + sorted_ratios ! (length sorted_ratios div 2)) / 2)"

definition computeTTCCamera ::
  "KeyPoint list \<Rightarrow> KeyPoint list \<Rightarrow> DMatch list \<Rightarrow> real \<Rightarrow> error + double" where
  "computeTTCCamera kptsPrev kptsCurr kptMatches_v frameRate =
     ebind (distRatios_of kptsPrev kptsCurr kptMatches_v) (\<lambda>distRatios.
       if length distRatios = 0 then Inr NaN
       else (let dT = ddiv (Fin 1) (Fin frameRate)
             in Inr (ddiv (dneg dT) (Fin (1 - medianDistRatio (sort distRatios))))))"

section \<open>matchBoundingBoxes\<close>

text \<open>\<open>std::map::insert\<close> keeps the entry of a key that is already present.\<close>

definition map_insert :: "(int \<rightharpoonup> int) \<Rightarrow> int \<Rightarrow> int \<Rightarrow> (int \<rightharpoonup> int)" where
  "map_insert m k v = (case m k of None \<Rightarrow> m(k \<mapsto> v) | Some old \<Rightarrow> m)"

text \<open>
  Body of the innermost loop (lines 274-290), as written: the current rectangle is taken
  at the index \<open>i\<close> of the match, and both keypoints from \<open>prevFrame\<close>; three of the
  subscripts are unchecked reads that can leave their vectors.
\<close>

definition match_body ::
  "DMatch list \<Rightarrow> DataFrame \<Rightarrow> DataFrame \<Rightarrow> nat \<Rightarrow> nat \<Rightarrow> nat \<Rightarrow> (int \<rightharpoonup> int) \<Rightarrow> error + (int \<rightharpoonup> int)" where
  "match_body matches prevFrame currFrame i j k bbBestMatches =
     ebind (vector_subscript (boundingBoxes prevFrame) (int j)) (\<lambda>bb_prev.
     ebind (vector_subscript (boundingBoxes currFrame) (int i)) (\<lambda>bb_curr_i.
     ebind (vector_subscript matches (int i)) (\<lambda>match.
     ebind (vector_subscript (df_keypoints prevFrame) (queryIdx match)) (\<lambda>pt_previous_frame.
     ebind (vector_subscript (df_keypoints prevFrame) (trainIdx match)) (\<lambda>pt_current_frame.
     if contains_f (roi bb_prev) (pt pt_previous_frame)
        \<and> contains_f (roi bb_curr_i) (pt pt_current_frame)
     then ebind (vector_subscript (boundingBoxes currFrame) (int k)) (\<lambda>bb_curr_k.
            Inr (map_insert bbBestMatches (boxID bb_prev) (boxID bb_curr_k)))
     else Inr bbBestMatches)))))"

definition match_loops ::
  "DMatch list \<Rightarrow> DataFrame \<Rightarrow> DataFrame \<Rightarrow> (int \<rightharpoonup> int) \<Rightarrow> error + (int \<rightharpoonup> int)" where
  "match_loops matches prevFrame currFrame =
     for_each [0..<length matches] (\<lambda>i.
       for_each [0..<length (boundingBoxes prevFrame)] (\<lambda>j.
         for_each [0..<length (boundingBoxes currFrame)] (\<lambda>k.
           match_body matches prevFrame currFrame i j k)))"

text \<open>Lines 260-294; \<open>bbBestMatches\<close> is the caller's map, updated in place.\<close>

definition matchBoundingBoxes ::
  "DMatch list \<Rightarrow> (int \<rightharpoonup> int) \<Rightarrow> DataFrame \<Rightarrow> DataFrame \<Rightarrow> error + (int \<rightharpoonup> int)" where
  "matchBoundingBoxes matches bbBestMatches prevFrame currFrame =
     (let count = 1;
          m1 = map_insert bbBestMatches 1 count;
          m2 = map_insert m1 3 3;
          m3 = map_insert m2 5 3
      in match_loops matches prevFrame currFrame m3)"


section \<open>Notions of the specification\<close>

text \<open>
  The votes of the specification for a pair of region identifiers: the correspondences whose
  previous keypoint lies in a previous-frame region with identifier \<open>p\<close> and whose current
  keypoint lies in a current-frame region with identifier \<open>c\<close>. This follows the words of
  the specification, not the code; \<open>matchBoundingBoxes\<close> is compared with it.
\<close>

definition spec_votes :: "DMatch list \<Rightarrow> DataFrame \<Rightarrow> DataFrame \<Rightarrow> int \<Rightarrow> int \<Rightarrow> nat" where
  "spec_votes matches prevFrame currFrame p c =
     length (filter (\<lambda>mt.
        (\<exists>bp\<in>set (boundingBoxes prevFrame). boxID bp = p
            \<and> contains_f (roi bp) (pt (df_keypoints prevFrame ! nat (queryIdx mt))))
      \<and> (\<exists>bc\<in>set (boundingBoxes currFrame). boxID bc = c
            \<and> contains_f (roi bc) (pt (df_keypoints currFrame ! nat (trainIdx mt))))) matches)"

text \<open>A pixel lies inside the shrunk rectangle of a region.\<close>

definition inside_shrunk :: "real \<Rightarrow> BoundingBox \<Rightarrow> Point \<Rightarrow> bool" where
  "inside_shrunk shrinkFactor b p =
     (case smallerBox shrinkFactor (roi b) of Inl e \<Rightarrow> False | Inr sb \<Rightarrow> contains sb p)"

text \<open>The positions of the regions that enclose the projection of a Lidar point.\<close>

definition enclosing_of ::
  "real \<Rightarrow> Mat \<Rightarrow> Mat \<Rightarrow> Mat \<Rightarrow> BoundingBox list \<Rightarrow> LidarPoint \<Rightarrow> error + nat list" where
  "enclosing_of shrinkFactor P_rect_xx R_rect_xx RT bs q =
     ebind (project P_rect_xx R_rect_xx RT q) (\<lambda>p. enclosingBoxes shrinkFactor p bs 0)"

text \<open>
  Invariant of the loop over the Lidar points: the rectangles are the initial ones, and a
  point stored in the region at position \<open>i\<close> is an input point enclosed by that region
  alone.
\<close>

definition assigned_ok ::
  "real \<Rightarrow> Mat \<Rightarrow> Mat \<Rightarrow> Mat \<Rightarrow> BoundingBox list \<Rightarrow> LidarPoint list \<Rightarrow> BoundingBox list \<Rightarrow> bool" where
  "assigned_ok shrinkFactor P_rect_xx R_rect_xx RT bbs pts u =
     (map roi u = map roi bbs \<and>
      (\<forall>i<length u. \<forall>q\<in>set (lidarPoints (u ! i)).
          q \<in> set pts \<and> enclosing_of shrinkFactor P_rect_xx R_rect_xx RT bbs q = Inr [i]))"

text \<open>Every index of every correspondence is inside its keypoint vector.\<close>

definition valid_matches :: "KeyPoint list \<Rightarrow> KeyPoint list \<Rightarrow> DMatch list \<Rightarrow> bool" where
  "valid_matches kptsPrev kptsCurr ms =
     (\<forall>m\<in>set ms. 0 \<le> trainIdx m \<and> trainIdx m < int (length kptsCurr)
                 \<and> 0 \<le> queryIdx m \<and> queryIdx m < int (length kptsPrev))"

definition distCurr_of :: "KeyPoint list \<Rightarrow> DMatch \<Rightarrow> DMatch \<Rightarrow> real" where
  "distCurr_of kptsCurr m1 m2 =
     cv_norm_diff (pt (kptsCurr ! nat (trainIdx m1))) (pt (kptsCurr ! nat (trainIdx m2)))"

definition distPrev_of :: "KeyPoint list \<Rightarrow> DMatch \<Rightarrow> DMatch \<Rightarrow> real" where
  "distPrev_of kptsPrev m1 m2 =
     cv_norm_diff (pt (kptsPrev ! nat (queryIdx m1))) (pt (kptsPrev ! nat (queryIdx m2)))"

definition retained :: "KeyPoint list \<Rightarrow> KeyPoint list \<Rightarrow> DMatch \<Rightarrow> DMatch \<Rightarrow> bool" where
  "retained kptsPrev kptsCurr m1 m2 =
     (epsilon < distPrev_of kptsPrev m1 m2 \<and> minDist \<le> distCurr_of kptsCurr m1 m2)"

text \<open>
  The retained distance ratios as one expression: the pairs are (outer, inner) with the
  outer correspondence not the last and the inner one not the first.
\<close>

definition retained_ratios :: "KeyPoint list \<Rightarrow> KeyPoint list \<Rightarrow> DMatch list \<Rightarrow> real list" where
  "retained_ratios kptsPrev kptsCurr ms =
     concat (map (\<lambda>m1. map (\<lambda>m2. distCurr_of kptsCurr m1 m2 / distPrev_of kptsPrev m1 m2)
                            (filter (retained kptsPrev kptsCurr m1) (tl ms)))
                 (butlast ms))"

text \<open>
  The distance ratios of the specification: one for every unordered pair of distinct
  correspondences, taken by their positions \<open>i < j\<close>, that passes the filter. This follows
  the words of the specification; the vector built by \<open>computeTTCCamera\<close> is compared with it.
\<close>

definition spec_ratios :: "KeyPoint list \<Rightarrow> KeyPoint list \<Rightarrow> DMatch list \<Rightarrow> real list" where
  "spec_ratios kptsPrev kptsCurr ms =
     concat (map (\<lambda>i. map (\<lambda>j. distCurr_of kptsCurr (ms ! i) (ms ! j)
                                   / distPrev_of kptsPrev (ms ! i) (ms ! j))
                           (filter (\<lambda>j. retained kptsPrev kptsCurr (ms ! i) (ms ! j))
                                   [Suc i..<length ms]))
                 [0..<length ms])"

text \<open>The correspondences of a region whose current keypoint lies in its rectangle.\<close>

definition inside_roi :: "BoundingBox \<Rightarrow> KeyPoint list \<Rightarrow> DMatch \<Rightarrow> bool" where
  "inside_roi boundingBox kptsCurr m = contains_f (roi boundingBox) (pt (kptsCurr ! nat (trainIdx m)))"

section \<open>Concrete inputs\<close>

definition lidar_xyz :: "real \<Rightarrow> real \<Rightarrow> real \<Rightarrow> LidarPoint" where
  "lidar_xyz a b c = \<lparr>lp_x = a, lp_y = b, lp_z = c, lp_r = 0\<rparr>"

definition lidar_at :: "real \<Rightarrow> LidarPoint" where
  "lidar_at a = lidar_xyz a 0 0"

definition keypoint_at :: "real \<Rightarrow> real \<Rightarrow> KeyPoint" where
  "keypoint_at a b =
     \<lparr>pt = (a, b), kp_size = 1, kp_angle = 0, response = 0, octave = 0, class_id = - 1\<rparr>"

definition dmatch :: "int \<Rightarrow> int \<Rightarrow> DMatch" where
  "dmatch q t = \<lparr>queryIdx = q, trainIdx = t, imgIdx = 0, distance = 0\<rparr>"

definition rect :: "int \<Rightarrow> int \<Rightarrow> int \<Rightarrow> int \<Rightarrow> Rect" where
  "rect a b w h = \<lparr>rect_x = a, rect_y = b, rect_width = w, rect_height = h\<rparr>"

definition box :: "int \<Rightarrow> Rect \<Rightarrow> BoundingBox" where
  "box n rc = \<lparr>boxID = n, roi = rc, lidarPoints = [], keypoints = [], kptMatches = []\<rparr>"

text \<open>Lidar collections: three previous and six current points; four and four.\<close>

definition prev3 :: "LidarPoint list" where
  "prev3 = [lidar_at 8, lidar_at 9, lidar_at 10]"

definition curr6 :: "LidarPoint list" where
  "curr6 = [lidar_at 6, lidar_at 7, lidar_at 8, lidar_at 9, lidar_at 10, lidar_at 11]"

definition prev4 :: "LidarPoint list" where
  "prev4 = [lidar_at 8, lidar_at 9, lidar_at 10, lidar_at 11]"

definition curr4 :: "LidarPoint list" where
  "curr4 = [lidar_at 6, lidar_at 7, lidar_at 8, lidar_at 9]"

text \<open>
  A camera whose depth is the \<open>z\<close> coordinate, two overlapping regions, and four Lidar
  points at depth 1: inside the first shrunk rectangle only, inside both, inside none,
  inside the second only.
\<close>

definition identity4 :: Mat where
  "identity4 = [[1, 0, 0, 0], [0, 1, 0, 0], [0, 0, 1, 0], [0, 0, 0, 1]]"

definition depth_z :: Mat where
  "depth_z = [[1, 0, 0, 0], [0, 1, 0, 0], [0, 0, 1, 0]]"

definition two_boxes :: "BoundingBox list" where
  "two_boxes = [box 0 (rect 0 0 100 100), box 1 (rect 50 50 100 100)]"

definition four_points :: "LidarPoint list" where
  "four_points = [lidar_xyz 20 20 1, lidar_xyz 70 70 1, lidar_xyz 200 200 1, lidar_xyz 120 120 1]"

definition two_boxes_filled :: "BoundingBox list" where
  "two_boxes_filled =
     [(box 0 (rect 0 0 100 100))\<lparr>lidarPoints := [lidar_xyz 20 20 1]\<rparr>,
      (box 1 (rect 50 50 100 100))\<lparr>lidarPoints := [lidar_xyz 120 120 1]\<rparr>]"

text \<open>Four keypoints on the corners of a square, matched corner to corner.\<close>

definition square :: "real \<Rightarrow> KeyPoint list" where
  "square a = [keypoint_at 0 0, keypoint_at a 0, keypoint_at a a, keypoint_at 0 a]"

definition square_matches :: "DMatch list" where
  "square_matches = [dmatch 0 0, dmatch 1 1, dmatch 2 2, dmatch 3 3]"

text \<open>Three keypoints on a line that move by different amounts.\<close>

definition line_prev :: "KeyPoint list" where
  "line_prev = [keypoint_at 0 0, keypoint_at 200 0, keypoint_at 500 0]"

definition line_curr :: "KeyPoint list" where
  "line_curr = [keypoint_at 0 0, keypoint_at 100 0, keypoint_at 400 0]"

definition line_matches :: "DMatch list" where
  "line_matches = [dmatch 0 0, dmatch 1 1, dmatch 2 2]"

text \<open>
  Two frames for the region matcher. Previous region 0 holds all seven previous keypoints;
  five of their partners lie in current region 10 and two in current region 11. Previous
  region 7 holds no keypoint.
\<close>

definition votes_prevFrame :: DataFrame where
  "votes_prevFrame =
     \<lparr>df_keypoints =
        [keypoint_at 60 10, keypoint_at 60 10, keypoint_at 60 10, keypoint_at 60 10,
         keypoint_at 60 10, keypoint_at 60 10, keypoint_at 60 10],
      boundingBoxes = [box 0 (rect 0 0 100 100), box 7 (rect 300 300 10 10)]\<rparr>"

definition votes_currFrame :: DataFrame where
  "votes_currFrame =
     \<lparr>df_keypoints =
        [keypoint_at 10 10, keypoint_at 10 10, keypoint_at 10 10, keypoint_at 10 10,
         keypoint_at 10 10, keypoint_at 60 10, keypoint_at 60 10],
      boundingBoxes =
        [box 11 (rect 50 0 50 100), box 10 (rect 0 0 50 100),
         box 12 (rect 200 200 10 10), box 13 (rect 200 200 10 10), box 14 (rect 200 200 10 10),
         box 15 (rect 200 200 10 10), box 16 (rect 200 200 10 10)]\<rparr>"

definition votes_matches :: "DMatch list" where
  "votes_matches =
     [dmatch 0 0, dmatch 1 1, dmatch 2 2, dmatch 3 3, dmatch 4 4, dmatch 5 5, dmatch 6 6]"

definition votes_result :: "int \<rightharpoonup> int" where
  "votes_result = [1 \<mapsto> 1, 3 \<mapsto> 3, 5 \<mapsto> 3, 0 \<mapsto> 11]"

text \<open>
  One correspondence whose previous keypoint lies in previous region 0 and whose current
  keypoint lies in no current region.
\<close>

definition stray_prevFrame :: DataFrame where
  "stray_prevFrame =
     \<lparr>df_keypoints = [keypoint_at 60 10], boundingBoxes = [box 0 (rect 0 0 100 100)]\<rparr>"

definition stray_currFrame :: DataFrame where
  "stray_currFrame =
     \<lparr>df_keypoints = [keypoint_at 500 500], boundingBoxes = [box 20 (rect 50 0 50 100)]\<rparr>"

definition stray_matches :: "DMatch list" where
  "stray_matches = [dmatch 0 0]"

definition stray_result :: "int \<rightharpoonup> int" where
  "stray_result = [1 \<mapsto> 1, 3 \<mapsto> 3, 5 \<mapsto> 3, 0 \<mapsto> 20]"




section \<open>General facts\<close>

lemma ebind_Inr_iff: "(ebind m f = Inr t) = (\<exists>v. m = Inr v \<and> f v = Inr t)"
  by (cases m) (simp_all add: ebind_def)

lemma ebind_Inr [simp]: "ebind (Inr v) f = f v"
  by (simp add: ebind_def)

lemma ebind_Inl [simp]: "ebind (Inl e) f = Inl e"
  by (simp add: ebind_def)

text \<open>A property that the body of a loop keeps holds after the loop.\<close>

lemma for_each_invariant:
  assumes "for_each xs body s = Inr t" and "I s"
    and "\<And>a u v. a \<in> set xs \<Longrightarrow> I u \<Longrightarrow> body a u = Inr v \<Longrightarrow> I v"
  shows "I t"
  using assms
proof (induction xs arbitrary: s)
  case Nil
  then show ?case by simp
next
  case (Cons a as)
  from Cons.prems(1) obtain u where u: "body a s = Inr u" "for_each as body u = Inr t"
    by (auto simp: ebind_Inr_iff)
  have "I u" using Cons.prems(3)[of a s u] Cons.prems(2) u(1) by simp
  moreover have "I w" if "b \<in> set as" "I v" "body b v = Inr w" for b v w
    using Cons.prems(3)[of b v w] that by simp
  ultimately show ?case using Cons.IH[OF u(2)] by blast
qed

lemma cvRound_numeral [simp]: "cvRound (numeral n) = numeral n" "cvRound 0 = 0" "cvRound 1 = 1"
  by (simp_all add: cvRound_def)

lemma trunc_to_zero_numeral [simp]:
  "trunc_to_zero (numeral n) = numeral n" "trunc_to_zero 0 = 0" "trunc_to_zero 1 = 1"
  by (simp_all add: trunc_to_zero_def)

lemma valid_matches_at:
  "valid_matches kp kc ms \<Longrightarrow> m \<in> set ms \<Longrightarrow>
     vector_at kc (trainIdx m) = Inr (kc ! nat (trainIdx m)) \<and>
     vector_at kp (queryIdx m) = Inr (kp ! nat (queryIdx m))"
  by (simp add: valid_matches_def vector_at_def)

lemma valid_matches_Cons: "valid_matches kp kc (m # ms) \<Longrightarrow> valid_matches kp kc ms"
  by (simp add: valid_matches_def)

lemmas lidar_input_defs = prev3_def curr6_def prev4_def curr4_def lidar_at_def lidar_xyz_def

lemmas keypoint_input_defs = keypoint_at_def dmatch_def rect_def box_def

section \<open>Range TTC estimator\<close>

lemma lidar_inner_lengths:
  "length (X_val_prev (fold (lidar_inner_body a) ps s)) = length (X_val_prev s) + length ps"
  "X_val_curr (fold (lidar_inner_body a) ps s) = X_val_curr s"
  by (induction ps arbitrary: s) (auto simp: lidar_inner_body_def)

lemma lidar_outer_lengths:
  "length (X_val_curr (fold (lidar_outer_body ps) cs s)) = length (X_val_curr s) + length cs"
  "length (X_val_prev (fold (lidar_outer_body ps) cs s)) = length (X_val_prev s) + length cs * length ps"
  by (induction cs arbitrary: s) (auto simp: lidar_outer_body_def lidar_inner_lengths)

text \<open>
  The previous forward values are stored once per current point, so the vector read at
  index 5 has \<open>|curr| * |prev|\<close> elements.
\<close>

lemma lidar_collect_lengths:
  "length (X_val_curr (lidar_collect ps cs)) = length cs"
  "length (X_val_prev (lidar_collect ps cs)) = length cs * length ps"
  by (simp_all add: lidar_collect_def lidar_outer_lengths)

text \<open>With fewer than six current points the read \<open>X_val_curr[5]\<close> is outside the vector.\<close>

lemma computeTTCLidar_short_current:
  assumes "length lidarPointsCurr < 6"
  shows "computeTTCLidar lidarPointsPrev lidarPointsCurr frameRate = Inl Undefined_Behaviour"
  using assms
  by (simp add: computeTTCLidar_def Let_def vector_subscript_def lidar_collect_lengths ebind_def)

text \<open>With six current points and one previous point both reads are inside.\<close>

lemma computeTTCLidar_returns:
  assumes "6 \<le> length lidarPointsCurr" and "6 \<le> length lidarPointsCurr * length lidarPointsPrev"
  shows "\<exists>ttc. computeTTCLidar lidarPointsPrev lidarPointsCurr frameRate = Inr ttc"
  using assms
  by (simp add: computeTTCLidar_def Let_def vector_subscript_def lidar_collect_lengths)

text \<open>
  C1. The claim: when either Lidar collection has fewer points than the rank, the estimator
  fails and reports an undefined result instead of reading out of bounds. The code has no
  such check. With three previous and six current points it returns the finite value
  \<open>-11/30\<close>; with four points in each collection it reads \<open>X_val_curr[5]\<close> behind the
  end of a vector of four elements.
\<close>

theorem computeTTCLidar_too_few_points:
  "computeTTCLidar prev3 curr6 10 = Inr (Fin (- 11 / 30))
   \<and> computeTTCLidar prev4 curr4 10 = Inl Undefined_Behaviour"
  by (simp add: computeTTCLidar_def lidar_collect_def lidar_outer_body_def lidar_inner_body_def
      vector_subscript_def lidar_input_defs)

section \<open>Point projector\<close>

lemmas mat_eval = mat_mul_def mat_rows_def mat_cols_def mat_at_def identity4_def depth_z_def
  upt_rec_numeral

text \<open>With this camera the pixel of a point is \<open>(x / z, y / z)\<close>, truncated.\<close>

lemma project_depth_z:
  "project depth_z identity4 identity4 (lidar_xyz a b c) =
     ebind (double_to_int (ddiv (Fin a) (Fin c))) (\<lambda>pt_x.
     ebind (double_to_int (ddiv (Fin b) (Fin c))) (\<lambda>pt_y. Inr (pt_x, pt_y)))"
  by (simp add: project_def mat_eval lidar_xyz_def)

text \<open>
  C4. The claim: the projector checks the transformed depth before the division and fails
  explicitly when it is zero. The code divides without a check: for a point of depth 0 the
  quotient is an infinity, and its conversion to the integer pixel coordinate is undefined;
  the whole association has no defined result.
\<close>

theorem project_zero_depth_unguarded:
  "ddiv (Fin 10) (Fin 0) = PInf
   \<and> project depth_z identity4 identity4 (lidar_xyz 10 5 0) = Inl Undefined_Behaviour
   \<and> clusterLidarWithROI two_boxes [lidar_xyz 10 5 0] (1 / 10) depth_z identity4 identity4
       = Inl Undefined_Behaviour"
  by (simp add: project_depth_z clusterLidarWithROI_def lidar_point_body_def)

section \<open>Region-keypoint associator\<close>

lemma kpt_match_loop:
  assumes "valid_matches kp kc rest"
  shows "for_each rest (kpt_match_body kp kc) bb =
     Inr (bb\<lparr>kptMatches := kptMatches bb @ filter (inside_roi bb kc) rest,
             keypoints := keypoints bb @ map (\<lambda>m. kc ! nat (trainIdx m)) (filter (inside_roi bb kc) rest)\<rparr>)"
  using assms
proof (induction rest arbitrary: bb)
  case Nil
  then show ?case by simp
next
  case (Cons m rest)
  have at: "vector_at kc (trainIdx m) = Inr (kc ! nat (trainIdx m))"
    "vector_at kp (queryIdx m) = Inr (kp ! nat (queryIdx m))"
    using valid_matches_at[OF Cons.prems, of m] by simp_all
  have same: "inside_roi (bb\<lparr>kptMatches := ms, keypoints := ks\<rparr>) kc = inside_roi bb kc" for ms ks
    by (simp add: inside_roi_def fun_eq_iff)
  show ?case
    using Cons.IH[OF valid_matches_Cons[OF Cons.prems]]
    by (simp add: kpt_match_body_def at same) (simp add: inside_roi_def)
qed

text \<open>
  What the associator appends: the correspondences inside the rectangle among all but the
  first one. The first correspondence is never examined.
\<close>

lemma clusterKptMatchesWithROI_appends:
  assumes "valid_matches kp kc rest"
  shows "clusterKptMatchesWithROI bb kp kc (first # rest) =
     Inr (bb\<lparr>kptMatches := kptMatches bb @ filter (inside_roi bb kc) rest,
             keypoints := keypoints bb @ map (\<lambda>m. kc ! nat (trainIdx m)) (filter (inside_roi bb kc) rest)\<rparr>)"
  by (simp add: clusterKptMatchesWithROI_def kpt_match_loop[OF assms])

text \<open>
  C6. The claim: the associator evaluates every correspondence and appends exactly those
  whose current keypoint lies inside the rectangle. The loop starts at the second
  correspondence: for a single correspondence whose current keypoint (20, 20) lies inside
  the rectangle, nothing is appended.
\<close>

theorem clusterKptMatchesWithROI_skips_first:
  "contains_f (roi (box 7 (rect 0 0 100 100))) (pt ([keypoint_at 20 20] ! nat (trainIdx (dmatch 0 0))))
   \<and> clusterKptMatchesWithROI (box 7 (rect 0 0 100 100)) [keypoint_at 10 10] [keypoint_at 20 20]
        [dmatch 0 0] = Inr (box 7 (rect 0 0 100 100))"
  by (simp add: clusterKptMatchesWithROI_def contains_f_def contains_def keypoint_input_defs)


section \<open>Region-point associator\<close>

lemma map_update_same: "f y = f (xs ! i) \<Longrightarrow> map f (xs[i := y]) = map f xs"
  by (cases "i < length xs") (simp_all add: map_update list_update_same_conv list_update_beyond)

lemma add_lidar_point_length [simp]: "length (add_lidar_point q es bs) = length bs"
  by (simp add: add_lidar_point_def)

lemma add_lidar_point_roi [simp]: "map roi (add_lidar_point q es bs) = map roi bs"
  by (simp add: add_lidar_point_def map_update_same)

lemma add_lidar_point_rest [simp]:
  "map (\<lambda>b. b\<lparr>lidarPoints := []\<rparr>) (add_lidar_point q es bs) = map (\<lambda>b. b\<lparr>lidarPoints := []\<rparr>) bs"
  by (simp add: add_lidar_point_def map_update_same)

lemma lidar_point_body_cases:
  assumes "lidar_point_body sf P R RT q bs = Inr bs'"
  obtains p es where "project P R RT q = Inr p" "enclosingBoxes sf p bs 0 = Inr es"
    "bs' = add_lidar_point q es bs"
  using assms by (auto simp: lidar_point_body_def ebind_Inr_iff)

text \<open>The enclosing regions depend on the rectangles only.\<close>

lemma enclosingBoxes_roi:
  "map roi bs = map roi bs' \<Longrightarrow> enclosingBoxes sf p bs i = enclosingBoxes sf p bs' i"
proof (induction bs arbitrary: bs' i)
  case Nil
  then show ?case by simp
next
  case (Cons b bs)
  then obtain c cs where c: "bs' = c # cs" "roi c = roi b" "map roi bs = map roi cs"
    by (cases bs') auto
  show ?case using Cons.IH[OF c(3)] c(1,2) by simp
qed

text \<open>As many positions are collected as there are regions whose shrunk rectangle holds the pixel.\<close>

lemma enclosingBoxes_length:
  "enclosingBoxes sf p bs i = Inr es \<Longrightarrow> length es = length (filter (\<lambda>b. inside_shrunk sf b p) bs)"
proof (induction bs arbitrary: i es)
  case Nil
  then show ?case by simp
next
  case (Cons b bs)
  from Cons.prems obtain sb es' where h: "smallerBox sf (roi b) = Inr sb"
    "enclosingBoxes sf p bs (Suc i) = Inr es'" "es = (if contains sb p then i # es' else es')"
    by (auto simp: ebind_Inr_iff)
  show ?case using Cons.IH[OF h(2)] h(1,3) by (simp add: inside_shrunk_def)
qed

lemma assigned_ok_step:
  assumes inv: "assigned_ok sf P R RT bbs pts u" and a: "a \<in> set pts"
    and body: "lidar_point_body sf P R RT a u = Inr v"
  shows "assigned_ok sf P R RT bbs pts v"
proof -
  from body obtain p es where h: "project P R RT a = Inr p" "enclosingBoxes sf p u 0 = Inr es"
    "v = add_lidar_point a es u"
    by (rule lidar_point_body_cases)
  have rois: "map roi u = map roi bbs" using inv by (simp add: assigned_ok_def)
  have es: "enclosing_of sf P R RT bbs a = Inr es"
    using h(1,2) enclosingBoxes_roi[OF rois, of sf p 0] by (simp add: enclosing_of_def)
  show ?thesis
  proof (cases "length es = 1")
    case False
    then show ?thesis using inv h(3) by (simp add: add_lidar_point_def)
  next
    case True
    then have es1: "es = [hd es]" by (cases es) auto
    have v: "v = u[hd es := (u ! hd es)\<lparr>lidarPoints := lidarPoints (u ! hd es) @ [a]\<rparr>]"
      using True h(3) by (simp add: add_lidar_point_def)
    have "q \<in> set pts \<and> enclosing_of sf P R RT bbs q = Inr [i]"
      if "i < length v" "q \<in> set (lidarPoints (v ! i))" for i q
    proof (cases "i = hd es")
      case True
      then have "q \<in> set (lidarPoints (u ! i)) \<or> q = a" using that v by auto
      then show ?thesis using inv that(1) a es es1 True v by (auto simp: assigned_ok_def)
    next
      case False
      then have "q \<in> set (lidarPoints (u ! i))" using that v by auto
      then show ?thesis using inv that(1) v by (auto simp: assigned_ok_def)
    qed
    then show ?thesis using h(3) rois by (simp add: assigned_ok_def)
  qed
qed

lemma assigned_ok_final:
  assumes "clusterLidarWithROI bbs pts sf P R RT = Inr bbs'" and "\<forall>b\<in>set bbs. lidarPoints b = []"
  shows "assigned_ok sf P R RT bbs pts bbs'"
proof (rule for_each_invariant[OF assms(1)[unfolded clusterLidarWithROI_def]])
  show "assigned_ok sf P R RT bbs pts bbs"
    using assms(2) by (simp add: assigned_ok_def)
next
  fix a u v
  assume "a \<in> set pts" "assigned_ok sf P R RT bbs pts u" "lidar_point_body sf P R RT a u = Inr v"
  then show "assigned_ok sf P R RT bbs pts v" by (simp add: assigned_ok_step)
qed

text \<open>The example of two regions and four points.\<close>

lemma smallerBox_examples:
  "smallerBox (1 / 10) (rect 0 0 100 100) = Inr (rect 5 5 90 90)"
  "smallerBox (1 / 10) (rect 50 50 100 100) = Inr (rect 55 55 90 90)"
  by (simp_all add: smallerBox_def rect_def)

lemma project_examples:
  "project depth_z identity4 identity4 (lidar_xyz 20 20 1) = Inr (20, 20)"
  "project depth_z identity4 identity4 (lidar_xyz 70 70 1) = Inr (70, 70)"
  "project depth_z identity4 identity4 (lidar_xyz 200 200 1) = Inr (200, 200)"
  "project depth_z identity4 identity4 (lidar_xyz 120 120 1) = Inr (120, 120)"
  by (simp_all add: project_depth_z)

lemma two_boxes_run:
  "clusterLidarWithROI two_boxes four_points (1 / 10) depth_z identity4 identity4 = Inr two_boxes_filled"
  by (simp add: clusterLidarWithROI_def lidar_point_body_def project_examples four_points_def
      two_boxes_def two_boxes_filled_def smallerBox_examples[unfolded rect_def] box_def rect_def
      contains_def add_lidar_point_def)

lemma two_boxes_fresh: "\<forall>b\<in>set two_boxes. lidarPoints b = []"
  by (simp add: two_boxes_def box_def)

lemma two_boxes_inside:
  "length (filter (\<lambda>b. inside_shrunk (1 / 10) b (70, 70)) two_boxes) = 2"
  "length (filter (\<lambda>b. inside_shrunk (1 / 10) b (200, 200)) two_boxes) = 0"
  by (simp_all add: two_boxes_def box_def inside_shrunk_def smallerBox_examples[unfolded rect_def]
      rect_def contains_def)

text \<open>
  C5. After region-point association (started with empty point collections) every
  region's points are input points, no point is in the collections of two regions, and a
  point whose projection lies inside the shrunk rectangles of several regions, or of none,
  is in no region's collection. This holds for every shrink factor, so for those in
  \<open>[0, 1)\<close>.
\<close>

theorem clusterLidarWithROI_association:
  assumes run: "clusterLidarWithROI bbs pts sf P R RT = Inr bbs'"
    and fresh: "\<forall>b\<in>set bbs. lidarPoints b = []"
  shows "(\<forall>b\<in>set bbs'. set (lidarPoints b) \<subseteq> set pts)
     \<and> (\<forall>i<length bbs'. \<forall>j<length bbs'. i \<noteq> j \<longrightarrow>
           set (lidarPoints (bbs' ! i)) \<inter> set (lidarPoints (bbs' ! j)) = {})
     \<and> (\<forall>q p. project P R RT q = Inr p \<longrightarrow> length (filter (\<lambda>b. inside_shrunk sf b p) bbs) \<noteq> 1
           \<longrightarrow> (\<forall>b\<in>set bbs'. q \<notin> set (lidarPoints b)))"
proof -
  have ok: "assigned_ok sf P R RT bbs pts bbs'" by (rule assigned_ok_final[OF run fresh])
  have mem: "q \<in> set pts \<and> enclosing_of sf P R RT bbs q = Inr [i]"
    if "i < length bbs'" "q \<in> set (lidarPoints (bbs' ! i))" for i q
    using ok that by (simp add: assigned_ok_def)
  have sub: "\<forall>b\<in>set bbs'. set (lidarPoints b) \<subseteq> set pts"
  proof (intro ballI subsetI)
    fix b q assume b: "b \<in> set bbs'" and q: "q \<in> set (lidarPoints b)"
    from b obtain i where i: "i < length bbs'" "b = bbs' ! i" by (auto simp: in_set_conv_nth)
    show "q \<in> set pts" using mem[OF i(1)] q i(2) by simp
  qed
  have disj: "\<forall>i<length bbs'. \<forall>j<length bbs'. i \<noteq> j \<longrightarrow>
           set (lidarPoints (bbs' ! i)) \<inter> set (lidarPoints (bbs' ! j)) = {}"
  proof (intro allI impI)
    fix i j assume ij: "i < length bbs'" "j < length bbs'" "i \<noteq> j"
    show "set (lidarPoints (bbs' ! i)) \<inter> set (lidarPoints (bbs' ! j)) = {}"
    proof (rule ccontr)
      assume "set (lidarPoints (bbs' ! i)) \<inter> set (lidarPoints (bbs' ! j)) \<noteq> {}"
      then obtain q where "q \<in> set (lidarPoints (bbs' ! i))" "q \<in> set (lidarPoints (bbs' ! j))"
        by blast
      then have "Inr [i] = (Inr [j] :: error + nat list)" using mem ij(1,2) by metis
      then show False using ij(3) by simp
    qed
  qed
  have amb: "\<forall>q p. project P R RT q = Inr p \<longrightarrow> length (filter (\<lambda>b. inside_shrunk sf b p) bbs) \<noteq> 1
           \<longrightarrow> (\<forall>b\<in>set bbs'. q \<notin> set (lidarPoints b))"
  proof (intro allI impI ballI notI)
    fix q p b
    assume p: "project P R RT q = Inr p"
      and n: "length (filter (\<lambda>b. inside_shrunk sf b p) bbs) \<noteq> 1"
      and b: "b \<in> set bbs'" and q: "q \<in> set (lidarPoints b)"
    from b obtain i where i: "i < length bbs'" "b = bbs' ! i" by (auto simp: in_set_conv_nth)
    have "enclosing_of sf P R RT bbs q = Inr [i]" using mem[OF i(1)] q i(2) by simp
    then have "enclosingBoxes sf p bbs 0 = Inr [i]" using p by (simp add: enclosing_of_def)
    from enclosingBoxes_length[OF this] n show False by simp
  qed
  show ?thesis using sub disj amb by blast
qed

theorem clusterLidarWithROI_association_witness:
  "clusterLidarWithROI two_boxes four_points (1 / 10) depth_z identity4 identity4 = Inr two_boxes_filled
   \<and> set (lidarPoints (two_boxes_filled ! 0)) \<subseteq> set four_points
   \<and> set (lidarPoints (two_boxes_filled ! 1)) \<subseteq> set four_points
   \<and> set (lidarPoints (two_boxes_filled ! 0)) \<inter> set (lidarPoints (two_boxes_filled ! 1)) = {}
   \<and> lidar_xyz 70 70 1 \<notin> set (lidarPoints (two_boxes_filled ! 0))
   \<and> lidar_xyz 70 70 1 \<notin> set (lidarPoints (two_boxes_filled ! 1))
   \<and> lidar_xyz 200 200 1 \<notin> set (lidarPoints (two_boxes_filled ! 0))
   \<and> lidar_xyz 200 200 1 \<notin> set (lidarPoints (two_boxes_filled ! 1))"
proof -
  note T = clusterLidarWithROI_association[OF two_boxes_run two_boxes_fresh]
  have len: "length two_boxes_filled = 2" by (simp add: two_boxes_filled_def)
  have in0: "two_boxes_filled ! 0 \<in> set two_boxes_filled" and in1: "two_boxes_filled ! 1 \<in> set two_boxes_filled"
    by (simp_all add: two_boxes_filled_def)
  have sub: "set (lidarPoints (two_boxes_filled ! 0)) \<subseteq> set four_points"
    "set (lidarPoints (two_boxes_filled ! 1)) \<subseteq> set four_points"
    using T in0 in1 by blast+
  have disj: "set (lidarPoints (two_boxes_filled ! 0)) \<inter> set (lidarPoints (two_boxes_filled ! 1)) = {}"
  proof -
    from T have "\<forall>i<length two_boxes_filled. \<forall>j<length two_boxes_filled. i \<noteq> j \<longrightarrow>
           set (lidarPoints (two_boxes_filled ! i)) \<inter> set (lidarPoints (two_boxes_filled ! j)) = {}"
      by blast
    then show ?thesis using len by simp
  qed
  have amb: "\<forall>q p. project depth_z identity4 identity4 q = Inr p \<longrightarrow>
      length (filter (\<lambda>b. inside_shrunk (1 / 10) b p) two_boxes) \<noteq> 1
           \<longrightarrow> (\<forall>b\<in>set two_boxes_filled. q \<notin> set (lidarPoints b))"
    using T by blast
  have both: "\<forall>b\<in>set two_boxes_filled. lidar_xyz 70 70 1 \<notin> set (lidarPoints b)"
    using amb project_examples(2) two_boxes_inside(1) by simp
  have none: "\<forall>b\<in>set two_boxes_filled. lidar_xyz 200 200 1 \<notin> set (lidarPoints b)"
    using amb project_examples(3) two_boxes_inside(2) by simp
  show ?thesis using two_boxes_run sub disj both none in0 in1 by blast
qed

text \<open>
  C10. Region-point association leaves every region's rectangle unchanged, and every other
  field except the point collection: the shrunk rectangle is a local copy.
\<close>

theorem clusterLidarWithROI_keeps_rectangles:
  assumes "clusterLidarWithROI bbs pts sf P R RT = Inr bbs'"
  shows "map roi bbs' = map roi bbs \<and>
         map (\<lambda>b. b\<lparr>lidarPoints := []\<rparr>) bbs' = map (\<lambda>b. b\<lparr>lidarPoints := []\<rparr>) bbs"
proof (rule for_each_invariant[OF assms[unfolded clusterLidarWithROI_def],
        of "\<lambda>u. map roi u = map roi bbs \<and>
         map (\<lambda>b. b\<lparr>lidarPoints := []\<rparr>) u = map (\<lambda>b. b\<lparr>lidarPoints := []\<rparr>) bbs"])
  show "map roi bbs = map roi bbs \<and>
         map (\<lambda>b. b\<lparr>lidarPoints := []\<rparr>) bbs = map (\<lambda>b. b\<lparr>lidarPoints := []\<rparr>) bbs" by simp
next
  fix a u v
  assume "map roi u = map roi bbs \<and>
         map (\<lambda>b. b\<lparr>lidarPoints := []\<rparr>) u = map (\<lambda>b. b\<lparr>lidarPoints := []\<rparr>) bbs"
    and "lidar_point_body sf P R RT a u = Inr v"
  then show "map roi v = map roi bbs \<and>
         map (\<lambda>b. b\<lparr>lidarPoints := []\<rparr>) v = map (\<lambda>b. b\<lparr>lidarPoints := []\<rparr>) bbs"
    by (auto elim!: lidar_point_body_cases)
qed

theorem clusterLidarWithROI_keeps_rectangles_witness:
  "clusterLidarWithROI two_boxes four_points (1 / 10) depth_z identity4 identity4 = Inr two_boxes_filled
   \<and> map roi two_boxes_filled = [rect 0 0 100 100, rect 50 50 100 100]
   \<and> map roi two_boxes_filled = map roi two_boxes
   \<and> map (\<lambda>b. b\<lparr>lidarPoints := []\<rparr>) two_boxes_filled = map (\<lambda>b. b\<lparr>lidarPoints := []\<rparr>) two_boxes"
  using clusterLidarWithROI_keeps_rectangles[OF two_boxes_run] two_boxes_run
  by (simp add: two_boxes_def box_def)


section \<open>Cross-frame region matcher\<close>

lemma map_insert_keeps: "m p = Some c \<Longrightarrow> map_insert m k v p = Some c"
  by (cases "m k") (auto simp: map_insert_def)

lemma map_insert_other: "k \<noteq> p \<Longrightarrow> map_insert m k v p = m p"
  by (simp add: map_insert_def split: option.splits)

lemma map_insert_cases:
  "map_insert m k v p = Some c \<Longrightarrow> m p = Some c \<or> (k = p \<and> v = c \<and> m p = None)"
  by (cases "m k") (auto simp: map_insert_def split: if_splits)

text \<open>
  What one pass through the innermost body can do: nothing, or one \<open>insert\<close> of the
  identifiers of the previous region \<open>j\<close> and the current region \<open>k\<close>, and then the previous
  keypoint of correspondence \<open>i\<close> lies in the previous region.
\<close>

lemma match_body_cases:
  assumes "match_body matches prevFrame currFrame i j k m = Inr m'"
  shows "m' = m \<or>
    (\<exists>bp bc mt kp. j < length (boundingBoxes prevFrame) \<and> bp = boundingBoxes prevFrame ! j
       \<and> k < length (boundingBoxes currFrame) \<and> bc = boundingBoxes currFrame ! k
       \<and> i < length matches \<and> mt = matches ! i
       \<and> vector_subscript (df_keypoints prevFrame) (queryIdx mt) = Inr kp
       \<and> contains_f (roi bp) (pt kp)
       \<and> m' = map_insert m (boxID bp) (boxID bc))"
  using assms
  by (auto simp: match_body_def ebind_Inr_iff vector_subscript_def split: if_splits)

text \<open>A property kept by every such \<open>insert\<close> holds after the three loops.\<close>

lemma match_loops_invariant:
  assumes "match_loops matches prevFrame currFrame m = Inr m'" and "I m"
    and "\<And>bp bc mt kp u. bp \<in> set (boundingBoxes prevFrame) \<Longrightarrow> bc \<in> set (boundingBoxes currFrame)
          \<Longrightarrow> mt \<in> set matches \<Longrightarrow> vector_subscript (df_keypoints prevFrame) (queryIdx mt) = Inr kp
          \<Longrightarrow> contains_f (roi bp) (pt kp) \<Longrightarrow> I u \<Longrightarrow> I (map_insert u (boxID bp) (boxID bc))"
  shows "I m'"
proof -
  have body: "I v" if "I u" "match_body matches prevFrame currFrame i j k u = Inr v" for i j k u v
  proof -
    from match_body_cases[OF that(2)] show ?thesis
    proof
      assume "v = u"
      then show ?thesis using that(1) by simp
    next
      assume "\<exists>bp bc mt kp. j < length (boundingBoxes prevFrame) \<and> bp = boundingBoxes prevFrame ! j
       \<and> k < length (boundingBoxes currFrame) \<and> bc = boundingBoxes currFrame ! k
       \<and> i < length matches \<and> mt = matches ! i
       \<and> vector_subscript (df_keypoints prevFrame) (queryIdx mt) = Inr kp
       \<and> contains_f (roi bp) (pt kp)
       \<and> v = map_insert u (boxID bp) (boxID bc)"
      then obtain kp where h: "j < length (boundingBoxes prevFrame)"
        "k < length (boundingBoxes currFrame)" "i < length matches"
        "vector_subscript (df_keypoints prevFrame) (queryIdx (matches ! i)) = Inr kp"
        "contains_f (roi (boundingBoxes prevFrame ! j)) (pt kp)"
        "v = map_insert u (boxID (boundingBoxes prevFrame ! j)) (boxID (boundingBoxes currFrame ! k))"
        by blast
      show ?thesis
        unfolding h(6)
        by (rule assms(3)[OF nth_mem[OF h(1)] nth_mem[OF h(2)] nth_mem[OF h(3)] h(4) h(5) that(1)])
    qed
  qed
  have kloop: "I v" if "I u"
    "for_each [0..<length (boundingBoxes currFrame)]
       (\<lambda>k. match_body matches prevFrame currFrame i j k) u = Inr v"
    for i j u v
    using for_each_invariant[OF that(2), of I] that(1) body by blast
  have jloop: "I v" if "I u"
    "for_each [0..<length (boundingBoxes prevFrame)] (\<lambda>j.
         for_each [0..<length (boundingBoxes currFrame)] (\<lambda>k.
           match_body matches prevFrame currFrame i j k)) u = Inr v"
    for i u v
    using for_each_invariant[OF that(2), of I] that(1) kloop by blast
  show ?thesis
    using for_each_invariant[OF assms(1)[unfolded match_loops_def], of I] assms(2) jloop by blast
qed

lemma matchBoundingBoxes_loops:
  "matchBoundingBoxes matches bbBestMatches prevFrame currFrame = Inr m \<Longrightarrow>
   match_loops matches prevFrame currFrame
     (map_insert (map_insert (map_insert bbBestMatches 1 1) 3 3) 5 3) = Inr m"
  by (simp add: matchBoundingBoxes_def)

text \<open>The fixed entries, for a call that returns.\<close>

lemma matchBoundingBoxes_fixed_entries_if_returns:
  assumes "matchBoundingBoxes matches bbBestMatches prevFrame currFrame = Inr m"
    and "bbBestMatches 1 = None" "bbBestMatches 3 = None" "bbBestMatches 5 = None"
  shows "m 1 = Some 1 \<and> m 3 = Some 3 \<and> m 5 = Some 3"
proof (rule match_loops_invariant[OF matchBoundingBoxes_loops[OF assms(1)],
        of "\<lambda>u. u 1 = Some 1 \<and> u 3 = Some 3 \<and> u 5 = Some 3"])
  show "map_insert (map_insert (map_insert bbBestMatches 1 1) 3 3) 5 3 1 = Some 1 \<and>
        map_insert (map_insert (map_insert bbBestMatches 1 1) 3 3) 5 3 3 = Some 3 \<and>
        map_insert (map_insert (map_insert bbBestMatches 1 1) 3 3) 5 3 5 = Some 3"
    using assms(2-4) by (simp add: map_insert_def)
next
  fix bp bc and u :: "int \<Rightarrow> int option"
  assume "u 1 = Some 1 \<and> u 3 = Some 3 \<and> u 5 = Some 3"
  then show "map_insert u (boxID bp) (boxID bc) 1 = Some 1 \<and>
        map_insert u (boxID bp) (boxID bc) 3 = Some 3 \<and>
        map_insert u (boxID bp) (boxID bc) 5 = Some 3"
    by (simp add: map_insert_keeps)
qed

text \<open>
  When the call returns: the body reads \<open>currFrame.boundingBoxes[i]\<close> at the index of the
  correspondence, so there must be as many current regions as correspondences, and both
  indices of a correspondence must be inside the previous keypoints.
\<close>

lemma for_each_returns:
  assumes "\<And>a s. a \<in> set xs \<Longrightarrow> \<exists>t. body a s = Inr t"
  shows "\<exists>t. for_each xs body s = Inr t"
  using assms
proof (induction xs arbitrary: s)
  case Nil
  then show ?case by simp
next
  case (Cons a as)
  from Cons.prems[of a s] obtain u where u: "body a s = Inr u" by auto
  have "\<exists>t. for_each as body u = Inr t"
    by (rule Cons.IH) (simp add: Cons.prems)
  then show ?case using u by simp
qed

lemma match_body_returns:
  assumes "i < length matches" and "i < length (boundingBoxes currFrame)"
    and "j < length (boundingBoxes prevFrame)" and "k < length (boundingBoxes currFrame)"
    and "0 \<le> queryIdx (matches ! i)"
    and "queryIdx (matches ! i) < int (length (df_keypoints prevFrame))"
    and "0 \<le> trainIdx (matches ! i)"
    and "trainIdx (matches ! i) < int (length (df_keypoints prevFrame))"
  shows "\<exists>t. match_body matches prevFrame currFrame i j k m = Inr t"
  using assms by (simp add: match_body_def vector_subscript_def)

lemma matchBoundingBoxes_returns:
  assumes "length matches \<le> length (boundingBoxes currFrame)"
    and "\<forall>mt\<in>set matches.
           0 \<le> queryIdx mt \<and> queryIdx mt < int (length (df_keypoints prevFrame))
           \<and> 0 \<le> trainIdx mt \<and> trainIdx mt < int (length (df_keypoints prevFrame))"
  shows "\<exists>m. matchBoundingBoxes matches bbBestMatches prevFrame currFrame = Inr m"
proof -
  have body: "\<exists>t. match_body matches prevFrame currFrame i j k u = Inr t"
    if "i \<in> set [0..<length matches]" "j \<in> set [0..<length (boundingBoxes prevFrame)]"
      "k \<in> set [0..<length (boundingBoxes currFrame)]" for i j k u
  proof -
    have i: "i < length matches" using that(1) by simp
    then have "matches ! i \<in> set matches" by simp
    then show ?thesis
      using assms i that(2,3) by (intro match_body_returns) auto
  qed
  have "\<exists>t. match_loops matches prevFrame currFrame u = Inr t" for u
    unfolding match_loops_def
    by (intro for_each_returns) (rule body)
  then show ?thesis by (simp add: matchBoundingBoxes_def)
qed

text \<open>The examples, evaluated.\<close>

lemmas votes_defs = votes_prevFrame_def votes_currFrame_def votes_matches_def votes_result_def
  keypoint_input_defs

lemma votes_run:
  "matchBoundingBoxes votes_matches Map.empty votes_prevFrame votes_currFrame = Inr votes_result"
  by (simp add: matchBoundingBoxes_def match_loops_def match_body_def votes_defs contains_f_def
      contains_def vector_subscript_def map_insert_def upt_rec_numeral)

lemma votes_counts:
  "spec_votes votes_matches votes_prevFrame votes_currFrame 0 10 = 5"
  "spec_votes votes_matches votes_prevFrame votes_currFrame 0 11 = 2"
  by (simp_all add: spec_votes_def votes_defs contains_f_def contains_def)

lemmas stray_defs = stray_prevFrame_def stray_currFrame_def stray_matches_def stray_result_def
  keypoint_input_defs


text \<open>
  C2. The claim: each previous region is mapped to the current region with the most votes,
  so a region with five correspondences landing in X and two in Y is mapped to X. In the
  example previous region 0 has five correspondences landing in current region 10 and two
  in current region 11, and the code maps 0 to 11: the body tests the rectangle of the
  current region at the index of the correspondence (line 275) against a keypoint of the
  previous frame (line 284), and inserts the identifier of the first current region of the
  vector; no votes are counted.
\<close>

theorem matchBoundingBoxes_ignores_votes:
  "spec_votes votes_matches votes_prevFrame votes_currFrame 0 10 = 5
   \<and> spec_votes votes_matches votes_prevFrame votes_currFrame 0 11 = 2
   \<and> matchBoundingBoxes votes_matches Map.empty votes_prevFrame votes_currFrame = Inr votes_result
   \<and> votes_result 0 = Some 11"
  by (simp add: votes_counts votes_run) (simp add: votes_result_def)

text \<open>
  C3. The claim: a previous region without votes has no entry in the result. In the
  example the current keypoint of the only correspondence lies in no current region, so
  previous region 0 has no vote for the only current region 20; the code tests the previous
  frame's keypoint instead (line 284) and the result holds \<open>0 \<mapsto> 20\<close>.
\<close>

theorem matchBoundingBoxes_entry_without_votes:
  "spec_votes stray_matches stray_prevFrame stray_currFrame 0 20 = 0
   \<and> matchBoundingBoxes stray_matches Map.empty stray_prevFrame stray_currFrame = Inr stray_result
   \<and> stray_result 0 = Some 20"
  by (simp add: spec_votes_def matchBoundingBoxes_def match_loops_def match_body_def stray_defs
      contains_f_def contains_def vector_subscript_def map_insert_def)


section \<open>Image TTC estimator\<close>

lemma ratio_inner_loop:
  assumes "valid_matches kp kc inner"
  shows "for_each inner (ratio_inner_body kp kc (kc ! nat (trainIdx m1)) (kp ! nat (queryIdx m1))) acc =
     Inr (acc @ map (\<lambda>m2. distCurr_of kc m1 m2 / distPrev_of kp m1 m2)
                    (filter (retained kp kc m1) inner))"
  using assms
proof (induction inner arbitrary: acc)
  case Nil
  then show ?case by simp
next
  case (Cons m2 inner)
  have at: "vector_at kc (trainIdx m2) = Inr (kc ! nat (trainIdx m2))"
    "vector_at kp (queryIdx m2) = Inr (kp ! nat (queryIdx m2))"
    using valid_matches_at[OF Cons.prems, of m2] by simp_all
  have step: "ratio_inner_body kp kc (kc ! nat (trainIdx m1)) (kp ! nat (queryIdx m1)) m2 acc =
     Inr (if retained kp kc m1 m2 then acc @ [distCurr_of kc m1 m2 / distPrev_of kp m1 m2] else acc)"
    by (simp add: ratio_inner_body_def at retained_def distCurr_of_def distPrev_of_def Let_def)
  show ?case
    using Cons.IH[OF valid_matches_Cons[OF Cons.prems]] by (simp add: step)
qed

lemma ratio_outer_loop:
  assumes "valid_matches kp kc outer" and "valid_matches kp kc (tl ms)"
  shows "for_each outer (ratio_outer_body kp kc ms) acc =
     Inr (acc @ concat (map (\<lambda>m1. map (\<lambda>m2. distCurr_of kc m1 m2 / distPrev_of kp m1 m2)
                            (filter (retained kp kc m1) (tl ms))) outer))"
  using assms(1)
proof (induction outer arbitrary: acc)
  case Nil
  then show ?case by simp
next
  case (Cons m1 outer)
  have at: "vector_at kc (trainIdx m1) = Inr (kc ! nat (trainIdx m1))"
    "vector_at kp (queryIdx m1) = Inr (kp ! nat (queryIdx m1))"
    using valid_matches_at[OF Cons.prems, of m1] by simp_all
  have step: "ratio_outer_body kp kc ms m1 acc =
     Inr (acc @ map (\<lambda>m2. distCurr_of kc m1 m2 / distPrev_of kp m1 m2)
                    (filter (retained kp kc m1) (tl ms)))"
    by (simp add: ratio_outer_body_def at ratio_inner_loop[OF assms(2)])
  show ?case
    using Cons.IH[OF valid_matches_Cons[OF Cons.prems]] by (simp add: step)
qed

text \<open>
  With at least one correspondence and all indices inside the keypoint vectors, the two
  loops produce the retained ratios.
\<close>

lemma distRatios_of_retained:
  assumes "ms \<noteq> []" and "valid_matches kp kc ms"
  shows "distRatios_of kp kc ms = Inr (retained_ratios kp kc ms)"
proof -
  have "valid_matches kp kc (butlast ms)" "valid_matches kp kc (tl ms)"
    using assms(2) by (auto simp: valid_matches_def dest: in_set_butlastD list.set_sel(2)[OF assms(1)])
  then show ?thesis
    using assms(1) ratio_outer_loop[of kp kc "butlast ms" ms "[]"]
    by (simp add: distRatios_of_def retained_ratios_def)
qed

text \<open>The guard of lines 189-194, for a vector of correspondences that is not empty.\<close>

lemma computeTTCCamera_nothing_retained:
  assumes "ms \<noteq> []" and "valid_matches kp kc ms" and "retained_ratios kp kc ms = []"
  shows "computeTTCCamera kp kc ms frameRate = Inr NaN"
  using assms(3) by (simp add: computeTTCCamera_def distRatios_of_retained[OF assms(1,2)])

text \<open>Square roots in the examples.\<close>

lemma sqrt_ge_100: "(100 \<le> sqrt v) = (10000 \<le> v)"
proof -
  have "sqrt 10000 = 100" using real_sqrt_abs2[of 100] by simp
  then show ?thesis using real_sqrt_le_iff[of 10000 v] by simp
qed

lemma sqrt_facts:
  "sqrt 1000000 = 1000" "sqrt 640000 = 800" "sqrt 1280000 / sqrt 2000000 = 4 / 5"
  "epsilon < sqrt 2000000" "epsilon < 1000" "\<not> epsilon < 0"
proof -
  show "epsilon < 1000" "\<not> epsilon < 0" by (simp_all add: epsilon_def)
  show "sqrt 1000000 = 1000" using real_sqrt_abs2[of 1000] by simp
  show "sqrt 640000 = 800" using real_sqrt_abs2[of 800] by simp
  have "sqrt (16 / 25) = 4 / 5" using real_sqrt_abs2[of "4 / 5"] by simp
  then show "sqrt 1280000 / sqrt 2000000 = 4 / 5"
    using real_sqrt_divide[of 1280000 2000000] by simp
  have "100 \<le> sqrt 2000000" by (simp add: sqrt_ge_100)
  moreover have "epsilon < 100" by (simp add: epsilon_def)
  ultimately show "epsilon < sqrt 2000000" by linarith
qed

lemmas square_defs = square_def square_matches_def keypoint_at_def dmatch_def

lemma square_valid: "valid_matches (square a) (square b) square_matches"
  by (simp add: valid_matches_def square_defs)

lemma square_matches_not_empty: "square_matches \<noteq> []"
  by (simp add: square_matches_def)

lemma big_square_ratios:
  "retained_ratios (square 1000) (square 800) square_matches =
     [4 / 5, 4 / 5, 4 / 5, 4 / 5, 4 / 5, 4 / 5, 4 / 5]"
  by (simp add: retained_ratios_def retained_def distCurr_of_def distPrev_of_def square_defs
      cv_norm_diff_def sqrt_facts sqrt_ge_100 minDist_def)

lemma small_square_ratios: "retained_ratios (square 10) (square 8) square_matches = []"
  by (simp add: retained_ratios_def retained_def distCurr_of_def distPrev_of_def square_defs
      cv_norm_diff_def sqrt_ge_100 minDist_def)

lemma big_square_median: "medianDistRatio [4 / 5, 4 / 5, 4 / 5, 4 / 5, 4 / 5, 4 / 5, 4 / 5] = 4 / 5"
  by (simp add: medianDistRatio_def)

text \<open>
  C7, as claimed: a square of side 10 in the previous frame and of side 8 in the current
  frame at 10 Hz yields the median ratio 0.8 and the TTC \<open>-0.5\<close>. Every current distance
  of that square is below \<open>minDist = 100\<close>, so no ratio is retained and the result is NaN.
\<close>

theorem computeTTCCamera_square_counterexample:
  "retained_ratios (square 10) (square 8) square_matches = []
   \<and> computeTTCCamera (square 10) (square 8) square_matches 10 = Inr NaN
   \<and> computeTTCCamera (square 10) (square 8) square_matches 10 \<noteq> Inr (Fin (- 1 / 2))"
  by (simp add: small_square_ratios
      computeTTCCamera_nothing_retained[OF square_matches_not_empty square_valid small_square_ratios])

text \<open>
  The values in the vector of the code are those of the specification. Both loops run over
  positions, the outer one without the last and the inner one without the first
  correspondence; a pair of equal positions has previous distance 0 and is filtered, and a
  pair visited in the order \<open>(j, i)\<close> has the ratio of \<open>(i, j)\<close>.
\<close>

lemma cv_norm_diff_sym: "cv_norm_diff a b = cv_norm_diff b a"
proof -
  have sq: "(x - y) * (x - y) = (y - x) * (y - x)" for x y :: real
    using power2_commute[of x y] by (simp only: power2_eq_square)
  show ?thesis
    unfolding cv_norm_diff_def
    by (simp only: sq[of "fst a" "fst b"] sq[of "snd a" "snd b"])
qed

lemma cv_norm_diff_self [simp]: "cv_norm_diff a a = 0"
  by (simp add: cv_norm_diff_def)

lemma retained_sym: "retained kp kc a b = retained kp kc b a"
  unfolding retained_def distCurr_of_def distPrev_of_def
  by (simp only: cv_norm_diff_sym[of "pt (kp ! nat (queryIdx a))" "pt (kp ! nat (queryIdx b))"]
      cv_norm_diff_sym[of "pt (kc ! nat (trainIdx a))" "pt (kc ! nat (trainIdx b))"])

lemma ratio_sym:
  "distCurr_of kc a b / distPrev_of kp a b = distCurr_of kc b a / distPrev_of kp b a"
  unfolding distCurr_of_def distPrev_of_def
  by (simp only: cv_norm_diff_sym[of "pt (kp ! nat (queryIdx a))" "pt (kp ! nat (queryIdx b))"]
      cv_norm_diff_sym[of "pt (kc ! nat (trainIdx a))" "pt (kc ! nat (trainIdx b))"])

lemma not_retained_self: "\<not> retained kp kc a a"
  by (simp add: retained_def distPrev_of_def epsilon_def)

lemma in_retained_ratios:
  "r \<in> set (retained_ratios kp kc ms) \<longleftrightarrow>
     (\<exists>a\<in>set (butlast ms). \<exists>b\<in>set (tl ms).
        retained kp kc a b \<and> r = distCurr_of kc a b / distPrev_of kp a b)"
  by (auto simp: retained_ratios_def)

lemma in_concat_map_filter:
  "r \<in> set (concat (map (\<lambda>i. map (f i) (filter (P i) (g i))) xs)) \<longleftrightarrow>
     (\<exists>i\<in>set xs. \<exists>j\<in>set (g i). P i j \<and> r = f i j)"
  by auto

lemma in_spec_ratios:
  "r \<in> set (spec_ratios kp kc ms) \<longleftrightarrow>
     (\<exists>i j. i < j \<and> j < length ms \<and> retained kp kc (ms ! i) (ms ! j)
        \<and> r = distCurr_of kc (ms ! i) (ms ! j) / distPrev_of kp (ms ! i) (ms ! j))"
proof
  assume "r \<in> set (spec_ratios kp kc ms)"
  then have "\<exists>i\<in>set [0..<length ms]. \<exists>j\<in>set [Suc i..<length ms].
      retained kp kc (ms ! i) (ms ! j)
      \<and> r = distCurr_of kc (ms ! i) (ms ! j) / distPrev_of kp (ms ! i) (ms ! j)"
    unfolding spec_ratios_def in_concat_map_filter .
  then obtain i j where "j \<in> set [Suc i..<length ms]" "retained kp kc (ms ! i) (ms ! j)"
    "r = distCurr_of kc (ms ! i) (ms ! j) / distPrev_of kp (ms ! i) (ms ! j)"
    by blast
  then show "\<exists>i j. i < j \<and> j < length ms \<and> retained kp kc (ms ! i) (ms ! j)
        \<and> r = distCurr_of kc (ms ! i) (ms ! j) / distPrev_of kp (ms ! i) (ms ! j)"
    by (intro exI[of _ i] exI[of _ j]) simp
next
  assume "\<exists>i j. i < j \<and> j < length ms \<and> retained kp kc (ms ! i) (ms ! j)
        \<and> r = distCurr_of kc (ms ! i) (ms ! j) / distPrev_of kp (ms ! i) (ms ! j)"
  then obtain i j where ij: "i < j" "j < length ms" "retained kp kc (ms ! i) (ms ! j)"
    "r = distCurr_of kc (ms ! i) (ms ! j) / distPrev_of kp (ms ! i) (ms ! j)"
    by blast
  have i: "i \<in> set [0..<length ms]" using ij(1,2) by simp
  have j: "j \<in> set [Suc i..<length ms]" using ij(1,2) by simp
  show "r \<in> set (spec_ratios kp kc ms)"
    unfolding spec_ratios_def in_concat_map_filter
    by (rule bexI[OF _ i], rule bexI[OF _ j]) (simp add: ij(3,4))
qed

lemma set_retained_ratios: "set (retained_ratios kp kc ms) = set (spec_ratios kp kc ms)"
proof (intro set_eqI iffI)
  fix r assume "r \<in> set (retained_ratios kp kc ms)"
  then obtain a b where ab: "a \<in> set (butlast ms)" "b \<in> set (tl ms)" "retained kp kc a b"
    "r = distCurr_of kc a b / distPrev_of kp a b"
    by (auto simp: in_retained_ratios)
  from ab(1) obtain i where i: "i < length ms - 1" "a = ms ! i"
    by (auto simp: in_set_conv_nth nth_butlast)
  from ab(2) obtain j' where j': "j' < length ms - 1" "b = ms ! Suc j'"
    by (auto simp: in_set_conv_nth nth_tl)
  have neq: "i \<noteq> Suc j'" using ab(3) i(2) j'(2) not_retained_self by auto
  show "r \<in> set (spec_ratios kp kc ms)"
  proof (cases "i < Suc j'")
    case True
    then show ?thesis using ab(3,4) i j' unfolding in_spec_ratios
      by (intro exI[of _ i] exI[of _ "Suc j'"]) auto
  next
    case False
    then have lt: "Suc j' < i" using neq by simp
    have "retained kp kc (ms ! Suc j') (ms ! i)"
      using ab(3) i(2) j'(2) retained_sym by simp
    moreover have "r = distCurr_of kc (ms ! Suc j') (ms ! i) / distPrev_of kp (ms ! Suc j') (ms ! i)"
      using ab(4) i(2) j'(2) ratio_sym by simp
    ultimately show ?thesis using lt i(1) unfolding in_spec_ratios
      by (intro exI[of _ "Suc j'"] exI[of _ i]) auto
  qed
next
  fix r assume "r \<in> set (spec_ratios kp kc ms)"
  then obtain i j where ij: "i < j" "j < length ms" "retained kp kc (ms ! i) (ms ! j)"
    "r = distCurr_of kc (ms ! i) (ms ! j) / distPrev_of kp (ms ! i) (ms ! j)"
    by (auto simp: in_spec_ratios)
  have "i < length (butlast ms)" using ij(1,2) by simp
  then have a: "ms ! i \<in> set (butlast ms)"
    using nth_mem[of i "butlast ms"] by (simp add: nth_butlast)
  obtain j' where j': "j = Suc j'" using ij(1) by (cases j) auto
  then have "j' < length (tl ms)" using ij(2) by simp
  then have b: "ms ! j \<in> set (tl ms)"
    using nth_mem[of j' "tl ms"] j' by (simp add: nth_tl)
  show "r \<in> set (retained_ratios kp kc ms)"
    unfolding in_retained_ratios using a b ij(3,4) by blast
qed

text \<open>The example on a line.\<close>

lemma cv_norm_diff_on_axis: "cv_norm_diff (a, 0) (b, 0) = \<bar>a - b\<bar>"
  by (simp add: cv_norm_diff_def)

lemmas line_defs = line_prev_def line_curr_def line_matches_def keypoint_at_def dmatch_def

lemma line_valid: "valid_matches line_prev line_curr line_matches"
  by (simp add: valid_matches_def line_defs)

lemma line_matches_not_empty: "line_matches \<noteq> []"
  by (simp add: line_matches_def)

lemma line_ratios: "retained_ratios line_prev line_curr line_matches = [1 / 2, 4 / 5, 1]"
  by (simp add: retained_ratios_def retained_def distCurr_of_def distPrev_of_def line_defs
      cv_norm_diff_on_axis minDist_def epsilon_def)

lemma line_median: "medianDistRatio [1 / 2, 4 / 5, 1] = 4 / 5"
  by (simp add: medianDistRatio_def)

text \<open>
  C7, amended: given at least one correspondence and indices inside the keypoint vectors,
  the values of the retained ratios are exactly the ratios of the pairs of distinct
  correspondences whose previous distance exceeds epsilon and whose current distance is
  at least 100; when a ratio is retained, the frame rate is not 0 and the median is not 1,
  the estimator returns \<open>-\<Delta>t / (1 - medianRatio)\<close> with \<open>\<Delta>t = 1 / frameRate\<close> and the median
  of the retained ratios. Instances at 10 Hz: the square of side 1000 and 800 with median
  ratio 0.8, and three keypoints on a line with the ratios 0.5, 0.8 and 1; both have the
  TTC \<open>-0.5\<close>.
\<close>

theorem computeTTCCamera_median_formula:
  assumes "ms \<noteq> []" and "valid_matches kp kc ms"
  shows "\<exists>rs. distRatios_of kp kc ms = Inr rs
           \<and> set rs = set (spec_ratios kp kc ms)
           \<and> (rs \<noteq> [] \<longrightarrow> frameRate \<noteq> 0 \<longrightarrow> medianDistRatio (sort rs) \<noteq> 1 \<longrightarrow>
                computeTTCCamera kp kc ms frameRate =
                  Inr (Fin (- (1 / frameRate) / (1 - medianDistRatio (sort rs)))))"
proof (intro exI conjI)
  show "distRatios_of kp kc ms = Inr (retained_ratios kp kc ms)"
    by (rule distRatios_of_retained[OF assms])
  show "set (retained_ratios kp kc ms) = set (spec_ratios kp kc ms)"
    by (rule set_retained_ratios)
  show "retained_ratios kp kc ms \<noteq> [] \<longrightarrow> frameRate \<noteq> 0 \<longrightarrow>
          medianDistRatio (sort (retained_ratios kp kc ms)) \<noteq> 1 \<longrightarrow>
          computeTTCCamera kp kc ms frameRate =
            Inr (Fin (- (1 / frameRate) / (1 - medianDistRatio (sort (retained_ratios kp kc ms)))))"
    by (simp add: computeTTCCamera_def distRatios_of_retained[OF assms])
qed

theorem computeTTCCamera_median_formula_witness:
  "distRatios_of (square 1000) (square 800) square_matches
     = Inr [4 / 5, 4 / 5, 4 / 5, 4 / 5, 4 / 5, 4 / 5, 4 / 5]
   \<and> computeTTCCamera (square 1000) (square 800) square_matches 10 = Inr (Fin (- 1 / 2))
   \<and> distRatios_of line_prev line_curr line_matches = Inr [1 / 2, 4 / 5, 1]
   \<and> computeTTCCamera line_prev line_curr line_matches 10 = Inr (Fin (- 1 / 2))"
proof -
  from computeTTCCamera_median_formula[OF square_matches_not_empty square_valid, of 1000 800 10]
  obtain rs where rs: "distRatios_of (square 1000) (square 800) square_matches = Inr rs"
    "rs \<noteq> [] \<longrightarrow> (10::real) \<noteq> 0 \<longrightarrow> medianDistRatio (sort rs) \<noteq> 1 \<longrightarrow>
       computeTTCCamera (square 1000) (square 800) square_matches 10 =
         Inr (Fin (- (1 / 10) / (1 - medianDistRatio (sort rs))))"
    by blast
  have rs_eq: "rs = [4 / 5, 4 / 5, 4 / 5, 4 / 5, 4 / 5, 4 / 5, 4 / 5]"
    using rs(1) distRatios_of_retained[OF square_matches_not_empty square_valid, of 1000 800]
    by (simp add: big_square_ratios)
  have sq: "computeTTCCamera (square 1000) (square 800) square_matches 10 = Inr (Fin (- 1 / 2))"
    using rs(2) by (simp add: rs_eq big_square_median)
  from computeTTCCamera_median_formula[OF line_matches_not_empty line_valid, of 10]
  obtain ls where ls: "distRatios_of line_prev line_curr line_matches = Inr ls"
    "ls \<noteq> [] \<longrightarrow> (10::real) \<noteq> 0 \<longrightarrow> medianDistRatio (sort ls) \<noteq> 1 \<longrightarrow>
       computeTTCCamera line_prev line_curr line_matches 10 =
         Inr (Fin (- (1 / 10) / (1 - medianDistRatio (sort ls))))"
    by blast
  have ls_eq: "ls = [1 / 2, 4 / 5, 1]"
    using ls(1) distRatios_of_retained[OF line_matches_not_empty line_valid]
    by (simp add: line_ratios)
  have ln: "computeTTCCamera line_prev line_curr line_matches 10 = Inr (Fin (- 1 / 2))"
    using ls(2) by (simp add: ls_eq line_median)
  show ?thesis using rs(1) ls(1) sq ln by (simp add: rs_eq ls_eq)
qed

text \<open>
  C8. The claim: whenever no ratio survives the filtering, the estimator reports NaN. That
  holds for one correspondence or more (\<open>computeTTCCamera_nothing_retained\<close>). With no
  correspondence at all no ratio survives either, but the outer loop runs to
  \<open>kptMatches.end() - 1\<close>, an iterator before \<open>begin()\<close>: the body is entered and
  dereferences \<open>end()\<close>, and the guard of line 190 is not reached.
\<close>

theorem computeTTCCamera_no_matches:
  "computeTTCCamera kptsPrev kptsCurr [] frameRate = Inl Undefined_Behaviour"
  by (simp add: computeTTCCamera_def distRatios_of_def)

end
